theory Spec2Isabelle
  imports Complex_Main
begin

section \<open>Values, errors and arrays\<close>

text \<open>
  The module \<open>bikewheelcalc/bicycle_wheel.py\<close> computes with Python and numpy floats.
  They are modelled by the real numbers: rounding, overflow, \<open>inf\<close> and \<open>nan\<close> are not
  represented. A division by zero has no real value in the program: on Python floats it
  raises ZeroDivisionError, on numpy floats it gives \<open>inf\<close> or \<open>nan\<close>. Where the operands
  are the caller's own arguments (\<open>Rim.box\<close>) the model raises; where they are fields of a
  spoke, which may hold either kind of float, the model writes the quotient and each
  theorem about a claim that depends on it states that the divisor is not zero.
\<close>

datatype error =
    ValueError | TypeError | IndexError | AttributeError | NameError
  | UnboundLocalError | ZeroDivisionError

text \<open>An argument as Python passes it: \<open>None\<close>, a bool, an int or a float.\<close>

datatype pyval = PNone | PBool bool | PInt int | PFloat real

text \<open>\<open>isinstance(v, float)\<close>.\<close>

fun is_float :: "pyval \<Rightarrow> bool" where
  "is_float (PFloat x) = True"
| "is_float v = False"

text \<open>The number an arithmetic operator reads from a value; \<open>None\<close> has none (TypeError).\<close>

fun num_of :: "pyval \<Rightarrow> real option" where
  "num_of PNone = None"
| "num_of (PBool b) = Some (if b then 1 else 0)"
| "num_of (PInt i) = Some (of_int i)"
| "num_of (PFloat x) = Some x"

text \<open>A 3-component array (\<open>Spoke.n\<close>, \<open>Spoke.b\<close>) and a 2-D array as its list of rows.\<close>

type_synonym vec3 = "real \<times> real \<times> real"
type_synonym matrix = "real list list"

text \<open>\<open>v[0]\<close>, \<open>v[1]\<close>, \<open>v[2]\<close>.\<close>

fun v0 :: "vec3 \<Rightarrow> real" where "v0 (a, b, c) = a"
fun v1 :: "vec3 \<Rightarrow> real" where "v1 (a, b, c) = b"
fun v2 :: "vec3 \<Rightarrow> real" where "v2 (a, b, c) = c"

text \<open>\<open>np.cross(a, b)\<close>.\<close>

fun cross :: "vec3 \<Rightarrow> vec3 \<Rightarrow> vec3" where
  "cross (a0, a1, a2) (b0, b1, b2) = (a1 * b2 - a2 * b1, a2 * b0 - a0 * b2, a0 * b1 - a1 * b0)"

text \<open>\<open>np.outer(a, b)\<close> and \<open>np.eye(3)\<close>.\<close>

fun outer :: "vec3 \<Rightarrow> vec3 \<Rightarrow> matrix" where
  "outer (a0, a1, a2) (b0, b1, b2) =
     [[a0 * b0, a0 * b1, a0 * b2], [a1 * b0, a1 * b1, a1 * b2], [a2 * b0, a2 * b1, a2 * b2]]"

definition eye3 :: matrix where
  "eye3 = [[1, 0, 0], [0, 1, 0], [0, 0, 1]]"

text \<open>
  Scalar times array, the entrywise sum and difference of two arrays of one shape, and
  array divided by scalar.
\<close>

definition mat_scale :: "real \<Rightarrow> matrix \<Rightarrow> matrix" where
  "mat_scale c M = map (map (\<lambda>x. c * x)) M"

definition mat_add :: "matrix \<Rightarrow> matrix \<Rightarrow> matrix" where
  "mat_add A B = map2 (map2 (+)) A B"

definition mat_sub :: "matrix \<Rightarrow> matrix \<Rightarrow> matrix" where
  "mat_sub A B = map2 (map2 (-)) A B"

definition mat_div :: "matrix \<Rightarrow> real \<Rightarrow> matrix" where
  "mat_div M d = map (map (\<lambda>x. x / d)) M"

text \<open>\<open>np.zeros((4, 4))\<close>.\<close>

definition zeros44 :: matrix where
  "zeros44 = replicate 4 (replicate 4 0)"

text \<open>\<open>M.dot(v)\<close> for a 3x3 array and a 3-vector (row i of M times v).\<close>

fun row_dot :: "real list \<Rightarrow> vec3 \<Rightarrow> real" where
  "row_dot [r0, r1, r2] (a, b, c) = r0 * a + r1 * b + r2 * c"
| "row_dot r v = 0"

definition mat_vec :: "matrix \<Rightarrow> vec3 \<Rightarrow> real list" where
  "mat_vec M v = map (\<lambda>r. row_dot r v) M"

text \<open>\<open>v.dot(M)\<close> for a 3-vector and a 3x3 array (v times column j of M).\<close>

definition vec_mat :: "vec3 \<Rightarrow> matrix \<Rightarrow> real list" where
  "vec_mat v M = map (\<lambda>j. v0 v * M ! 0 ! j + v1 v * M ! 1 ! j + v2 v * M ! 2 ! j) [0, 1, 2]"

section \<open>Spoke\<close>

text \<open>
  The fields \<open>n\<close>, \<open>b\<close>, \<open>length\<close>, \<open>young_mod\<close> and \<open>density\<close> of the class carry the suffix
  \<open>_spk\<close> here (\<open>length\<close> is HOL's list length, \<open>young_mod\<close> and \<open>density\<close> are fields of
  the rim as well). \<open>density\<close> is \<open>None\<close> when it was not given.
\<close>

record Spoke =
  theta :: real
  n_spk :: vec3
  b_spk :: vec3
  length_spk :: real
  diameter :: real
  young_mod_spk :: real
  density_spk :: "real option"
  tension :: real
  EA :: real

text \<open>\<open>Spoke.__init__\<close>.\<close>

definition Spoke_init ::
  "real \<Rightarrow> vec3 \<Rightarrow> vec3 \<Rightarrow> real \<Rightarrow> real \<Rightarrow> real \<Rightarrow> real option \<Rightarrow> Spoke" where
  "Spoke_init th n b len diam ym dens =
     \<lparr>theta = th, n_spk = n, b_spk = b, length_spk = len, diameter = diam,
      young_mod_spk = ym, density_spk = dens, tension = 0, EA = pi / 4 * diam\<^sup>2 * ym\<rparr>"

text \<open>
  The four slice assignments that fill \<open>k = np.zeros((4, 4))\<close>:
  \<open>k[0:3, 0:3] = k_f\<close>, \<open>k[0:3, 3] = dFdphi\<close>, \<open>k[3, 0:3] = dFdphi\<close>, \<open>k[3, 3] = dTdphi\<close>.
\<close>

definition assemble_k :: "matrix \<Rightarrow> real list \<Rightarrow> real \<Rightarrow> matrix" where
  "assemble_k k_f dFdphi dTdphi =
     map (\<lambda>i. map (\<lambda>j. if i < 3 \<and> j < 3 then k_f ! i ! j
                        else if i < 3 then dFdphi ! i
                        else if j < 3 then dFdphi ! j
                        else dTdphi) [0, 1, 2, 3]) [0, 1, 2, 3::nat]"

text \<open>\<open>Spoke.calc_k(tension=...)\<close>.\<close>

definition calc_k :: "Spoke \<Rightarrow> bool \<Rightarrow> matrix" where
  "calc_k s use_tension =
     (let n = n_spk s;
          e3 = (0, 0, 1);
          K_e = EA s / length_spk s;
          K_t = (if use_tension then tension s / length_spk s else 0);
          k_f = mat_add (mat_scale K_e (outer n n))
                        (mat_scale K_t (mat_sub eye3 (outer n n)));
          dFdphi = mat_vec k_f (cross e3 (b_spk s));
          dTdphi = row_dot (vec_mat (cross (b_spk s) e3) k_f) (cross (b_spk s) e3)
      in assemble_k k_f dFdphi dTdphi)"

text \<open>\<open>Spoke.calc_k_geom()\<close>.\<close>

definition calc_k_geom :: "Spoke \<Rightarrow> matrix" where
  "calc_k_geom s =
     (let n = n_spk s;
          e3 = (0, 0, 1);
          k_f = mat_scale (1 / length_spk s) (mat_sub eye3 (outer n n));
          dFdphi = mat_vec k_f (cross e3 (b_spk s));
          dTdphi = row_dot (vec_mat (cross (b_spk s) e3) k_f) (cross (b_spk s) e3)
      in assemble_k k_f dFdphi dTdphi)"

text \<open>\<open>Spoke.calc_mass()\<close> and \<open>Spoke.calc_rot_inertia()\<close>; \<open>None\<close> is Python's \<open>None\<close>.\<close>

definition Spoke_calc_mass :: "Spoke \<Rightarrow> real option" where
  "Spoke_calc_mass s =
     (case density_spk s of
        Some d \<Rightarrow> Some (d * length_spk s * pi / 4 * (diameter s)\<^sup>2)
      | None \<Rightarrow> None)"

definition Spoke_calc_rot_inertia :: "Spoke \<Rightarrow> real option" where
  "Spoke_calc_rot_inertia s =
     (case density_spk s of
        Some d \<Rightarrow> map_option (\<lambda>m. m * (length_spk s * v1 (n_spk s))\<^sup>2 / 12) (Spoke_calc_mass s)
      | None \<Rightarrow> None)"

text \<open>
  The construction the specification describes for both matrices, with the elastic
  coefficient \<open>K_e\<close> and the transverse coefficient \<open>K_t\<close> as parameters:
  \<open>k_f = K_e (n \<otimes> n) + K_t (I - n \<otimes> n)\<close>, its rotational coupling as last row and column.
  It follows the specification's words and is compared with the two source functions below.
\<close>

definition k_construction :: "real \<Rightarrow> real \<Rightarrow> vec3 \<Rightarrow> vec3 \<Rightarrow> matrix" where
  "k_construction K_e K_t n b =
     (let e3 = (0, 0, 1);
          k_f = mat_add (mat_scale K_e (outer n n))
                        (mat_scale K_t (mat_sub eye3 (outer n n)));
          dFdphi = mat_vec k_f (cross e3 b);
          dTdphi = row_dot (vec_mat (cross b e3) k_f) (cross b e3)
      in assemble_k k_f dFdphi dTdphi)"

text \<open>The quadratic form \<open>x\<^sup>T k x\<close> of a 4x4 array and a 4-vector.\<close>

definition quad_form :: "matrix \<Rightarrow> real list \<Rightarrow> real" where
  "quad_form k x = (\<Sum>i\<leftarrow>[0, 1, 2, 3]. \<Sum>j\<leftarrow>[0, 1, 2, 3]. x ! i * k ! i ! j * x ! j)"

section \<open>Rim\<close>

record Rim =
  radius :: real
  area :: real
  I_rad :: real
  I_lat :: real
  J_tor :: real
  I_warp :: real
  young_mod :: real
  shear_mod :: real
  density :: "real option"
  sec_type :: string
  sec_params :: "(string \<times> pyval) list"

text \<open>\<open>Rim.__init__\<close> and the factory \<open>Rim.general\<close>.\<close>

definition Rim_init ::
  "real \<Rightarrow> real \<Rightarrow> real \<Rightarrow> real \<Rightarrow> real \<Rightarrow> real \<Rightarrow> real \<Rightarrow> real \<Rightarrow> real option \<Rightarrow> string \<Rightarrow>
   (string \<times> pyval) list \<Rightarrow> Rim" where
  "Rim_init r a irad ilat jtor iwarp ym sm dens st sp =
     \<lparr>radius = r, area = a, I_rad = irad, I_lat = ilat, J_tor = jtor, I_warp = iwarp,
      young_mod = ym, shear_mod = sm, density = dens, sec_type = st, sec_params = sp\<rparr>"

definition general ::
  "real \<Rightarrow> real \<Rightarrow> real \<Rightarrow> real \<Rightarrow> real \<Rightarrow> real \<Rightarrow> real \<Rightarrow> real \<Rightarrow> real option \<Rightarrow> Rim" where
  "general r a irad ilat jtor iwarp ym sm dens =
     Rim_init r a irad ilat jtor iwarp ym sm dens ''general'' []"

text \<open>
  Reading a local name of a function body: a name the body assigns to is local to it, and
  reading it before any assignment has run raises UnboundLocalError. The argument is the
  value bound so far, if any.
\<close>

definition read_local :: "real option \<Rightarrow> error + real" where
  "read_local bound = (case bound of None \<Rightarrow> Inl UnboundLocalError | Some x \<Rightarrow> Inr x)"

text \<open>
  \<open>Rim.box\<close>. Its parameters are \<open>radius, w, h, t, young_mod, shear_mod, density\<close>; the
  statement \<open>I_warp = I_warp\<close> reads the local name \<open>I_warp\<close>, which nothing has bound.
  The quotient of \<open>J_tor\<close> is computed first; on Python floats a zero divisor raises.
\<close>

definition box ::
  "real \<Rightarrow> real \<Rightarrow> real \<Rightarrow> real \<Rightarrow> real \<Rightarrow> real \<Rightarrow> real option \<Rightarrow> error + Rim" where
  "box r w h t ym sm dens =
     (let a = 2 * (w + t / 2) * t + 2 * (h - t / 2) * t in
      if w + h = 0 then Inl ZeroDivisionError
      else
        let jtor = 2 * t * (w * h)\<^sup>2 / (w + h);
            irad = 2 * (t * (h + t) ^ 3) / 12 + 2 * ((w - t) * t ^ 3 / 12 + (w - t) * t * (h / 2)\<^sup>2);
            ilat = 2 * (t * (w + t) ^ 3) / 12 + 2 * ((h - t) * t ^ 3 / 12 + (h - t) * t * (w / 2)\<^sup>2)
        in case read_local None of
             Inl e \<Rightarrow> Inl e
           | Inr iwarp \<Rightarrow>
               Inr (Rim_init r a irad ilat jtor iwarp ym sm dens ''box''
                      [(''closed'', PBool True), (''w'', PFloat w), (''h'', PFloat h),
                       (''t'', PFloat t)]))"

text \<open>\<open>Rim.calc_mass()\<close> and \<open>Rim.calc_rot_inertia()\<close>.\<close>

definition Rim_calc_mass :: "Rim \<Rightarrow> real option" where
  "Rim_calc_mass r =
     (case density r of
        Some d \<Rightarrow> Some (d * 2 * pi * radius r * area r)
      | None \<Rightarrow> None)"

definition Rim_calc_rot_inertia :: "Rim \<Rightarrow> real option" where
  "Rim_calc_rot_inertia r =
     (case density r of
        Some d \<Rightarrow> map_option (\<lambda>m. m * (radius r)\<^sup>2) (Rim_calc_mass r)
      | None \<Rightarrow> None)"

section \<open>Hub\<close>

text \<open>
  The flange diameters keep whatever value was passed (the shared \<open>diameter\<close> may be
  \<open>None\<close>); the widths, once resolved, are floats.
\<close>

record Hub =
  diameter_nds :: pyval
  diameter_ds :: pyval
  width_nds :: real
  width_ds :: real

text \<open>
  \<open>Hub.__init__(diameter, diameter_nds, diameter_ds, width, width_nds, width_ds, offset)\<close>.
  In the first branch the two widths are computed before the check that raises, so a
  non-numeric \<open>offset\<close> fails first.
\<close>

definition Hub_init ::
  "pyval \<Rightarrow> pyval \<Rightarrow> pyval \<Rightarrow> pyval \<Rightarrow> pyval \<Rightarrow> pyval \<Rightarrow> pyval \<Rightarrow> error + Hub" where
  "Hub_init diam diam_nds diam_ds width w_nds w_ds offset =
     (let d_nds = (if is_float diam_nds then diam_nds else diam);
          d_ds = (if is_float diam_ds then diam_ds else diam)
      in case width of
           PFloat wd \<Rightarrow>
             (case num_of (if offset = PNone then PFloat 0 else offset) of
                None \<Rightarrow> Inl TypeError
              | Some off \<Rightarrow>
                  if w_nds \<noteq> PNone \<or> w_ds \<noteq> PNone then Inl ValueError
                  else Inr \<lparr>diameter_nds = d_nds, diameter_ds = d_ds,
                             width_nds = wd / 2 + off, width_ds = wd / 2 - off\<rparr>)
         | _ \<Rightarrow>
             (case (w_nds, w_ds) of
                (PFloat a, PFloat b) \<Rightarrow>
                  Inr \<lparr>diameter_nds = d_nds, diameter_ds = d_ds, width_nds = a, width_ds = b\<rparr>
              | _ \<Rightarrow> Inl ValueError))"

section \<open>BicycleWheel\<close>

text \<open>
  \<open>BicycleWheel.__init__\<close> sets \<open>spokes\<close>, \<open>rim\<close> and \<open>hub\<close>. The method \<open>lace_cross_side\<close>
  also reads \<open>self.hub_width_ds\<close> and \<open>self.hub_width_nds\<close>, attributes that neither the
  class nor any method of the module sets: they are \<open>None\<close> here when the instance does
  not have them, which is the case for every wheel the module builds (the flange widths
  are attributes of the hub, \<open>self.hub.width_ds\<close>). The spokes of a wheel are distinct
  objects, as the lacing creates them, so the list holds them by value.
\<close>

record BicycleWheel =
  spokes :: "Spoke list"
  rim :: "Rim option"
  hub :: "Hub option"
  hub_width_ds :: "real option"
  hub_width_nds :: "real option"

definition BicycleWheel_init :: BicycleWheel where
  "BicycleWheel_init =
     \<lparr>spokes = [], rim = None, hub = None, hub_width_ds = None, hub_width_nds = None\<rparr>"

text \<open>
  The global name \<open>s_dir\<close> that the loop of \<open>lace_cross_side\<close> reads. No assignment,
  parameter or import of the module binds it, so the lookup finds nothing (NameError).
\<close>

definition s_dir :: "real option" where
  "s_dir = None"

text \<open>
  \<open>reorder_spokes\<close>: the spokes in the order of \<open>np.argsort\<close> of their \<open>theta\<close>. (For equal
  keys numpy's default sort may order the ties differently from this stable sort.)
\<close>

definition reorder_spokes :: "BicycleWheel \<Rightarrow> BicycleWheel" where
  "reorder_spokes w = w\<lparr>spokes := sort_key theta (spokes w)\<rparr>"

text \<open>
  One pass of the loop body of \<open>lace_cross_side\<close> for the index \<open>s\<close>: the spoke it appends,
  or the error it raises. \<open>hub_z\<close> and \<open>hub_r\<close> are the two lists built before the loop,
  \<open>side\<close> is already 0 or 1. \<open>dv\<close> and \<open>dw\<close> are computed twice, the second time from
  \<open>self.hub.diameter_ds / 2\<close> whatever the side.
\<close>

definition lace_spoke ::
  "Rim option \<Rightarrow> Hub \<Rightarrow> real list \<Rightarrow> pyval list \<Rightarrow> int \<Rightarrow> real \<Rightarrow> nat \<Rightarrow> real \<Rightarrow> real \<Rightarrow> real \<Rightarrow>
   real option \<Rightarrow> real \<Rightarrow> int \<Rightarrow> error + Spoke" where
  "lace_spoke rm hb hub_z hub_r n_spokes n_cross side offset diam ym dens offset_rad s =
     (let theta_rim = 2 * pi / of_int n_spokes * of_int s + offset in
      case s_dir of
        None \<Rightarrow> Inl NameError
      | Some sd \<Rightarrow>
          (let theta_hub = theta_rim + 2 * pi / of_int n_spokes * n_cross * sd;
               du = hub_z ! side
           in (case rm of
                 None \<Rightarrow> Inl AttributeError
               | Some r \<Rightarrow>
                   (case num_of (hub_r ! side) of
                      None \<Rightarrow> Inl TypeError
                    | Some hr \<Rightarrow>
                        (case num_of (diameter_ds hb) of
                           None \<Rightarrow> Inl TypeError
                         | Some dds \<Rightarrow>
                             (let dv_first = radius r - offset_rad - hr * cos (theta_hub - theta_rim);
                                  dw_first = hr * sin (theta_hub - theta_rim);
                                  dv = radius r - offset_rad - dds / 2 * cos (theta_hub - theta_rim);
                                  dw = dds / 2 * sin (theta_hub - theta_rim);
                                  len = sqrt (du\<^sup>2 + dv\<^sup>2 + dw\<^sup>2);
                                  n = (du / len, dv / len, dw / len);
                                  b = (- offset, offset_rad, 0)
                              in Inr (Spoke_init theta_rim n b len diam ym dens)))))))"

text \<open>
  The loop \<open>for s in range(n_spokes)\<close>: each spoke is appended to the wheel's list as it
  is made; an error leaves the list as it was when the error was raised.
\<close>

fun lace_loop :: "(int \<Rightarrow> error + Spoke) \<Rightarrow> int list \<Rightarrow> Spoke list \<Rightarrow> error option \<times> Spoke list" where
  "lace_loop body [] acc = (None, acc)"
| "lace_loop body (s # ss) acc =
     (case body s of
        Inl e \<Rightarrow> (Some e, acc)
      | Inr sp \<Rightarrow> lace_loop body ss (acc @ [sp]))"

text \<open>
  \<open>lace_cross_side\<close>. The result is what the call returns or raises, with the wheel as
  the call leaves it. (\<open>direction\<close> is normalised and flipped in the loop, and never read.)
\<close>

definition lace_cross_side ::
  "int \<Rightarrow> real \<Rightarrow> real \<Rightarrow> real \<Rightarrow> real \<Rightarrow> real \<Rightarrow> real \<Rightarrow> real option \<Rightarrow> real \<Rightarrow> real \<Rightarrow>
   BicycleWheel \<Rightarrow> (error + bool) \<times> BicycleWheel" where
  "lace_cross_side n_spokes n_cross side direction offset diam ym dens offset_lat offset_rad w =
     (let side01 = (if side > 0 then 1 else 0)
      in case hub_width_ds w of
           None \<Rightarrow> (Inl AttributeError, w)
         | Some wds \<Rightarrow>
             (case hub_width_nds w of
                None \<Rightarrow> (Inl AttributeError, w)
              | Some wnds \<Rightarrow>
                  (let hub_z = [- wds + offset_lat, wnds - offset_lat]
                   in (case hub w of
                         None \<Rightarrow> (Inl AttributeError, w)
                       | Some hb \<Rightarrow>
                           (let hub_r = [diameter_ds hb, diameter_nds hb]
                            in (case lace_loop
                                       (lace_spoke (rim w) hb hub_z hub_r n_spokes n_cross side01
                                          offset diam ym dens offset_rad)
                                       (map int [0..<nat n_spokes]) (spokes w) of
                                  (Some e, sps) \<Rightarrow> (Inl e, w\<lparr>spokes := sps\<rparr>)
                                | (None, sps) \<Rightarrow>
                                    (Inr True, reorder_spokes (w\<lparr>spokes := sps\<rparr>))))))))"

text \<open>
  \<open>lace_cross\<close>: both calls pass \<open>side=1, direction=1\<close>; the offset of the second call,
  \<open>np.pi/(n_spokes//2)\<close>, is computed after the first call has returned.
\<close>

definition lace_cross ::
  "int \<Rightarrow> real \<Rightarrow> real \<Rightarrow> real \<Rightarrow> real option \<Rightarrow> real \<Rightarrow> real \<Rightarrow> BicycleWheel \<Rightarrow>
   (error + bool) \<times> BicycleWheel" where
  "lace_cross n_spokes n_cross diam ym dens offset_lat offset_rad w =
     (let w0 = w\<lparr>spokes := []\<rparr>
      in case lace_cross_side (n_spokes div 2) n_cross 1 1 0 diam ym dens offset_lat offset_rad w0 of
           (Inl e, w1) \<Rightarrow> (Inl e, w1)
         | (Inr ok, w1) \<Rightarrow>
             if n_spokes div 2 = 0 then (Inl ZeroDivisionError, w1)
             else
               (case lace_cross_side (n_spokes div 2) n_cross 1 1 (pi / of_int (n_spokes div 2))
                       diam ym dens offset_lat offset_rad w1 of
                  (Inl e, w2) \<Rightarrow> (Inl e, w2)
                | (Inr ok2, w2) \<Rightarrow> (Inr True, w2)))"

text \<open>\<open>lace_radial\<close>.\<close>

definition lace_radial ::
  "int \<Rightarrow> real \<Rightarrow> real \<Rightarrow> real option \<Rightarrow> real \<Rightarrow> real \<Rightarrow> BicycleWheel \<Rightarrow>
   (error + bool) \<times> BicycleWheel" where
  "lace_radial n_spokes diam ym dens offset_lat offset_rad w =
     lace_cross n_spokes 0 diam ym dens offset_lat offset_rad w"

text \<open>
  The loop \<open>for i in range(start, len(self.spokes), 2): self.spokes[i].tension = T\<close>,
  entered at \<open>i\<close>.
\<close>

function set_tension_loop :: "nat \<Rightarrow> real \<Rightarrow> Spoke list \<Rightarrow> Spoke list" where
  "set_tension_loop i T sps =
     (if i < length sps then set_tension_loop (i + 2) T (sps[i := (sps ! i)\<lparr>tension := T\<rparr>])
      else sps)"
  by pat_completeness auto
termination
  by (relation "measure (\<lambda>(i, T, sps). length sps - i)") auto

declare set_tension_loop.simps [simp del]

text \<open>The two loops under \<open># Apply tensions\<close>: even indices get \<open>T_l\<close>, odd ones \<open>T_r\<close>.\<close>

definition assign_tensions :: "real \<Rightarrow> real \<Rightarrow> Spoke list \<Rightarrow> Spoke list" where
  "assign_tensions T_l T_r sps = set_tension_loop 1 T_r (set_tension_loop 0 T_l sps)"

text \<open>
  \<open>apply_tension(T_avg, T_left, T_right)\<close>; an argument left out is \<open>None\<close>. Reading
  \<open>self.spokes[0]\<close> and \<open>self.spokes[1]\<close> comes first. The branch of \<open>T_avg\<close> runs the two
  loops itself, and the two loops after the branches run again.
\<close>

definition apply_tension ::
  "real option \<Rightarrow> real option \<Rightarrow> real option \<Rightarrow> BicycleWheel \<Rightarrow> (error + unit) \<times> BicycleWheel" where
  "apply_tension T_avg T_left T_right w =
     (if length (spokes w) < 2 then (Inl IndexError, w)
      else
        let s_l = spokes w ! 0;
            s_r = spokes w ! 1
        in case T_avg of
             Some t_avg \<Rightarrow>
               (let T_l = 2 * t_avg * \<bar>v0 (n_spk s_r)\<bar> /
                          (\<bar>v0 (n_spk s_l) * v1 (n_spk s_r)\<bar> + \<bar>v0 (n_spk s_r) * v1 (n_spk s_l)\<bar>);
                    T_r = 2 * t_avg * \<bar>v0 (n_spk s_l)\<bar> /
                          (\<bar>v0 (n_spk s_l) * v1 (n_spk s_r)\<bar> + \<bar>v0 (n_spk s_r) * v1 (n_spk s_l)\<bar>);
                    sps = assign_tensions T_l T_r (spokes w)
                in (Inr (), w\<lparr>spokes := assign_tensions T_l T_r sps\<rparr>))
           | None \<Rightarrow>
               (case T_right of
                  Some t_right \<Rightarrow>
                    (let T_r = t_right;
                         T_l = \<bar>v0 (n_spk s_r) / v0 (n_spk s_l)\<bar> * t_right
                     in (Inr (), w\<lparr>spokes := assign_tensions T_l T_r (spokes w)\<rparr>))
                | None \<Rightarrow>
                    (case T_left of
                       Some t_left \<Rightarrow>
                         (let T_l = t_left;
                              T_r = \<bar>v0 (n_spk s_l) / v0 (n_spk s_r)\<bar> * t_left
                          in (Inr (), w\<lparr>spokes := assign_tensions T_l T_r (spokes w)\<rparr>))
                     | None \<Rightarrow> (Inl TypeError, w))))"

text \<open>
  \<open>calc_kbar_geom\<close>: the sum over the spokes of
  \<open>np.abs(s.n[0])/T_d * s.calc_k_geom()/(np.pi*self.rim.radius)\<close>, from \<open>np.zeros((4, 4))\<close>.
  With two spokes or more the loop body runs, and reads \<open>self.rim.radius\<close>.
\<close>

definition calc_kbar_geom :: "BicycleWheel \<Rightarrow> error + matrix" where
  "calc_kbar_geom w =
     (if length (spokes w) < 2 then Inl IndexError
      else
        let s_0 = spokes w ! 0;
            s_1 = spokes w ! 1;
            T_d = \<bar>v0 (n_spk s_0) * v1 (n_spk s_1)\<bar> + \<bar>v0 (n_spk s_1) * v1 (n_spk s_0)\<bar>
        in case rim w of
             None \<Rightarrow> Inl AttributeError
           | Some r \<Rightarrow>
               Inr (foldl (\<lambda>k_bar s. mat_add k_bar
                              (mat_div (mat_scale (\<bar>v0 (n_spk s)\<bar> / T_d) (calc_k_geom s))
                                 (pi * radius r)))
                      zeros44 (spokes w)))"

text \<open>A missing value replaced by \<open>0.\<close> (\<open>np.where(m == None, 0., m)\<close>).\<close>

fun or_zero :: "real option \<Rightarrow> real" where
  "or_zero None = 0"
| "or_zero (Some x) = x"

text \<open>
  \<open>BicycleWheel.calc_mass\<close>: the value returned and the warnings issued by \<open>warn\<close>, in
  order. A wheel without a rim fails on \<open>self.rim.calc_mass()\<close>.
\<close>

definition calc_mass :: "BicycleWheel \<Rightarrow> error + real \<times> string list" where
  "calc_mass w =
     (case rim w of
        None \<Rightarrow> Inl AttributeError
      | Some r \<Rightarrow>
          (let (m_rim, warn_rim) =
                 (case Rim_calc_mass r of
                    None \<Rightarrow> (0, [''Rim density is not specified.''])
                  | Some m \<Rightarrow> (m, []));
               m_spokes = map Spoke_calc_mass (spokes w);
               warn_spokes =
                 (if list_ex (\<lambda>m. m = None) m_spokes
                  then [''Some spoke densities are not specified.''] else [])
           in Inr (m_rim + sum_list (map or_zero m_spokes), warn_rim @ warn_spokes)))"

text \<open>
  The loop of \<open>calc_rot_inertia\<close> over the spokes, entered with the sum so far:
  \<open>I_spokes = I_spokes + I_spk[i] + mr2_spk\<close>, where \<open>mid_pt\<close> is the midpoint of the rim
  point \<open>(0, -radius + b[1], 0)\<close> and the hub point \<open>rim_pt + n*length\<close>. A spoke without
  inertia or mass would be a TypeError in the arithmetic.
\<close>

fun rot_inertia_loop :: "real \<Rightarrow> real \<Rightarrow> Spoke list \<Rightarrow> error + real" where
  "rot_inertia_loop rad I_spokes [] = Inr I_spokes"
| "rot_inertia_loop rad I_spokes (s # ss) =
     (let rim_pt = (0, - rad + v1 (b_spk s), 0);
          hub_pt = (v0 rim_pt + v0 (n_spk s) * length_spk s,
                    v1 rim_pt + v1 (n_spk s) * length_spk s,
                    v2 rim_pt + v2 (n_spk s) * length_spk s);
          mid_pt = (0.5 * (v0 rim_pt + v0 hub_pt), 0.5 * (v1 rim_pt + v1 hub_pt),
                    0.5 * (v2 rim_pt + v2 hub_pt))
      in case (Spoke_calc_rot_inertia s, Spoke_calc_mass s) of
           (Some I_s, Some m) \<Rightarrow>
             rot_inertia_loop rad (I_spokes + I_s + m * ((v0 mid_pt)\<^sup>2 + (v1 mid_pt)\<^sup>2)) ss
         | _ \<Rightarrow> Inl TypeError)"

text \<open>
  \<open>BicycleWheel.calc_rot_inertia\<close>: the value returned and the warnings issued. When any
  spoke has no inertia, \<open>I_spokes = 0.\<close> stands for all the spokes.
\<close>

definition calc_rot_inertia :: "BicycleWheel \<Rightarrow> error + real \<times> string list" where
  "calc_rot_inertia w =
     (case rim w of
        None \<Rightarrow> Inl AttributeError
      | Some r \<Rightarrow>
          (let (I_rim, warn_rim) =
                 (case Rim_calc_rot_inertia r of
                    None \<Rightarrow> (0, [''Rim density is not specified.''])
                  | Some i \<Rightarrow> (i, []));
               I_spk = map Spoke_calc_rot_inertia (spokes w)
           in if list_ex (\<lambda>i. i = None) I_spk
              then Inr (I_rim + 0, warn_rim @ [''Some spoke densities are not specified.''])
              else (case rot_inertia_loop (radius r) 0 (spokes w) of
                      Inl e \<Rightarrow> Inl e
                    | Inr I_spokes \<Rightarrow> Inr (I_rim + I_spokes, warn_rim))))"

section \<open>Example objects\<close>

text \<open>
  A rim built by \<open>Rim.general\<close> with a density, the hub \<open>Hub(diameter=0.05, width=0.05)\<close>,
  and two spokes with unit direction vectors of different lateral and radial components;
  the first spoke has a density, the second has none.
\<close>

definition example_rim :: Rim where
  "example_rim =
     general (3 / 10) (1 / 10000) (1 / 1000000000) (1 / 1000000000) (1 / 1000000000) 0
       69000000000 26000000000 (Some 2700)"

definition example_hub :: Hub where
  "example_hub =
     \<lparr>diameter_nds = PFloat (5 / 100), diameter_ds = PFloat (5 / 100),
      width_nds = 25 / 1000, width_ds = 25 / 1000\<rparr>"

definition example_spoke_l :: Spoke where
  "example_spoke_l = Spoke_init 0 (3 / 5, 4 / 5, 0) (0, 0, 0) 1 (2 / 1000) 210000000000 (Some 8000)"

definition example_spoke_r :: Spoke where
  "example_spoke_r = Spoke_init pi (- 4 / 5, 3 / 5, 0) (0, 0, 0) 1 (2 / 1000) 210000000000 None"

definition example_wheel :: BicycleWheel where
  "example_wheel =
     BicycleWheel_init\<lparr>spokes := [example_spoke_l, example_spoke_r],
                        rim := Some example_rim, hub := Some example_hub\<rparr>"

section \<open>The tension loops\<close>

lemma length_set_tension_loop [simp]: "length (set_tension_loop i T sps) = length sps"
proof (induction i T sps rule: set_tension_loop.induct)
  case (1 i T sps)
  show ?case
  proof (cases "i < length sps")
    case True
    with 1 show ?thesis by (subst set_tension_loop.simps) simp
  next
    case False
    then show ?thesis by (subst set_tension_loop.simps) simp
  qed
qed

lemma nth_set_tension_loop:
  "j < length sps \<Longrightarrow>
   set_tension_loop i T sps ! j =
     (if i \<le> j \<and> even (j - i) then (sps ! j)\<lparr>tension := T\<rparr> else sps ! j)"
proof (induction i T sps rule: set_tension_loop.induct)
  case (1 i T sps)
  let ?sps' = "sps[i := (sps ! i)\<lparr>tension := T\<rparr>]"
  show ?case
  proof (cases "i < length sps")
    case True
    have step: "set_tension_loop i T sps = set_tension_loop (i + 2) T ?sps'"
      using True by (subst set_tension_loop.simps) simp
    have ih: "set_tension_loop (i + 2) T ?sps' ! j =
        (if i + 2 \<le> j \<and> even (j - (i + 2)) then (?sps' ! j)\<lparr>tension := T\<rparr> else ?sps' ! j)"
      using 1 True by simp
    show ?thesis
    proof (cases "j = i")
      case True
      then show ?thesis using step ih \<open>i < length sps\<close> by simp
    next
      case False
      then have eq1: "?sps' ! j = sps ! j" by simp
      have eq2: "(i + 2 \<le> j \<and> even (j - (i + 2))) = (i \<le> j \<and> even (j - i))"
        using False by presburger
      have "set_tension_loop i T sps ! j = set_tension_loop (i + 2) T ?sps' ! j"
        by (simp only: step)
      also have "\<dots> = (if i + 2 \<le> j \<and> even (j - (i + 2)) then (?sps' ! j)\<lparr>tension := T\<rparr> else ?sps' ! j)"
        by (rule ih)
      also have "\<dots> = (if i \<le> j \<and> even (j - i) then (sps ! j)\<lparr>tension := T\<rparr> else sps ! j)"
        by (simp only: eq1 eq2)
      finally show ?thesis .
    qed
  next
    case False
    then show ?thesis using 1(2) by (subst set_tension_loop.simps) simp
  qed
qed

lemma length_assign_tensions [simp]: "length (assign_tensions a b sps) = length sps"
  by (simp add: assign_tensions_def)

lemma nth_assign_tensions:
  assumes "j < length sps"
  shows "assign_tensions a b sps ! j = (sps ! j)\<lparr>tension := (if even j then a else b)\<rparr>"
proof -
  have odd1: "(1 \<le> j \<and> even (j - 1)) = odd j" by presburger
  have "assign_tensions a b sps ! j =
      (if 1 \<le> j \<and> even (j - 1) then (set_tension_loop 0 a sps ! j)\<lparr>tension := b\<rparr>
       else set_tension_loop 0 a sps ! j)"
    using assms by (simp only: assign_tensions_def nth_set_tension_loop length_set_tension_loop)
  also have "\<dots> = (if odd j then (set_tension_loop 0 a sps ! j)\<lparr>tension := b\<rparr>
       else set_tension_loop 0 a sps ! j)"
    by (simp only: odd1)
  also have "set_tension_loop 0 a sps ! j = (if even j then (sps ! j)\<lparr>tension := a\<rparr> else sps ! j)"
    using assms by (simp add: nth_set_tension_loop)
  finally show ?thesis by simp
qed

lemma assign_tensions_idem:
  "assign_tensions a b (assign_tensions a b sps) = assign_tensions a b sps"
  by (rule nth_equalityI) (simp_all add: nth_assign_tensions)


lemma apply_tension_T_avg_result:
  assumes "2 \<le> length (spokes w)"
  shows "apply_tension (Some t) T_left T_right w =
    (Inr (), w\<lparr>spokes := assign_tensions
       (2 * t * \<bar>v0 (n_spk (spokes w ! 1))\<bar> /
          (\<bar>v0 (n_spk (spokes w ! 0)) * v1 (n_spk (spokes w ! 1))\<bar> +
           \<bar>v0 (n_spk (spokes w ! 1)) * v1 (n_spk (spokes w ! 0))\<bar>))
       (2 * t * \<bar>v0 (n_spk (spokes w ! 0))\<bar> /
          (\<bar>v0 (n_spk (spokes w ! 0)) * v1 (n_spk (spokes w ! 1))\<bar> +
           \<bar>v0 (n_spk (spokes w ! 1)) * v1 (n_spk (spokes w ! 0))\<bar>))
       (spokes w)\<rparr>)"
  using assms by (simp add: apply_tension_def Let_def assign_tensions_idem)

section \<open>apply_tension from an average radial tension\<close>

text \<open>
  Claim C3, as amended. For a wheel with at least two spokes whose denominator
  \<open>|n_l0 n_r1| + |n_r0 n_l1|\<close> is not zero (\<open>n_l = spokes[0].n\<close>, \<open>n_r = spokes[1].n\<close>),
  \<open>apply_tension(T_avg=T_avg)\<close> returns, every even-indexed spoke has one tension \<open>T_l\<close>
  and every odd-indexed spoke one tension \<open>T_r\<close>, no direction vector changes, the
  lateral components balance as \<open>T_l |n_l0| = T_r |n_r0|\<close>, and the radial average
  \<open>(T_l |n_l1| + T_r |n_r1|) / 2\<close> is \<open>T_avg\<close>. \<open>T_avg\<close> takes precedence over the two other
  arguments.
\<close>

theorem apply_tension_T_avg:
  assumes two: "2 \<le> length (spokes w)"
    and nl: "n_l = n_spk (spokes w ! 0)"
    and nr: "n_r = n_spk (spokes w ! 1)"
    and den: "\<bar>v0 n_l * v1 n_r\<bar> + \<bar>v0 n_r * v1 n_l\<bar> \<noteq> 0"
  shows "\<exists>w' T_l T_r.
      apply_tension (Some T_avg) T_left T_right w = (Inr (), w')
    \<and> length (spokes w') = length (spokes w)
    \<and> (\<forall>i < length (spokes w'). tension (spokes w' ! i) = (if even i then T_l else T_r))
    \<and> (\<forall>i < length (spokes w'). n_spk (spokes w' ! i) = n_spk (spokes w ! i))
    \<and> T_l * \<bar>v0 n_l\<bar> = T_r * \<bar>v0 n_r\<bar>
    \<and> (T_l * \<bar>v1 n_l\<bar> + T_r * \<bar>v1 n_r\<bar>) / 2 = T_avg"
proof -
  define D where "D = \<bar>v0 n_l * v1 n_r\<bar> + \<bar>v0 n_r * v1 n_l\<bar>"
  define T_l where "T_l = 2 * T_avg * \<bar>v0 n_r\<bar> / D"
  define T_r where "T_r = 2 * T_avg * \<bar>v0 n_l\<bar> / D"
  define w' where "w' = w\<lparr>spokes := assign_tensions T_l T_r (spokes w)\<rparr>"
  have D0: "D \<noteq> 0" using den by (simp add: D_def)
  have res: "apply_tension (Some T_avg) T_left T_right w = (Inr (), w')"
    using apply_tension_T_avg_result [OF two] by (simp add: w'_def T_l_def T_r_def D_def nl nr)
  have len: "length (spokes w') = length (spokes w)" by (simp add: w'_def)
  have alt: "\<forall>i < length (spokes w'). tension (spokes w' ! i) = (if even i then T_l else T_r)"
    by (simp add: w'_def nth_assign_tensions)
  have frame: "\<forall>i < length (spokes w'). n_spk (spokes w' ! i) = n_spk (spokes w ! i)"
    by (simp add: w'_def nth_assign_tensions)
  have bal: "T_l * \<bar>v0 n_l\<bar> = T_r * \<bar>v0 n_r\<bar>"
    by (simp add: T_l_def T_r_def)
  have "T_l * \<bar>v1 n_l\<bar> + T_r * \<bar>v1 n_r\<bar> = 2 * T_avg * (\<bar>v0 n_r\<bar> * \<bar>v1 n_l\<bar> + \<bar>v0 n_l\<bar> * \<bar>v1 n_r\<bar>) / D"
    by (simp add: T_l_def T_r_def algebra_simps add_divide_distrib)
  also have "\<bar>v0 n_r\<bar> * \<bar>v1 n_l\<bar> + \<bar>v0 n_l\<bar> * \<bar>v1 n_r\<bar> = D"
    by (simp add: D_def abs_mult)
  finally have avg: "(T_l * \<bar>v1 n_l\<bar> + T_r * \<bar>v1 n_r\<bar>) / 2 = T_avg"
    using D0 by simp
  from res len alt frame bal avg show ?thesis by blast
qed

text \<open>The theorem at the example wheel with \<open>T_avg = 800\<close>.\<close>

theorem apply_tension_T_avg_witness:
  "\<exists>w' T_l T_r.
      apply_tension (Some 800) None None example_wheel = (Inr (), w')
    \<and> length (spokes w') = 2
    \<and> tension (spokes w' ! 0) = T_l \<and> tension (spokes w' ! 1) = T_r
    \<and> T_l * \<bar>3 / 5\<bar> = T_r * \<bar>- 4 / 5\<bar>
    \<and> (T_l * \<bar>4 / 5\<bar> + T_r * \<bar>3 / 5\<bar>) / 2 = 800"
proof -
  have two: "2 \<le> length (spokes example_wheel)"
    by (simp add: example_wheel_def BicycleWheel_init_def)
  have nl: "(3 / 5, 4 / 5, 0) = n_spk (spokes example_wheel ! 0)"
    by (simp add: example_wheel_def BicycleWheel_init_def example_spoke_l_def Spoke_init_def)
  have nr: "(- 4 / 5, 3 / 5, 0) = n_spk (spokes example_wheel ! 1)"
    by (simp add: example_wheel_def BicycleWheel_init_def example_spoke_r_def Spoke_init_def)
  have den: "\<bar>v0 (3 / 5, 4 / 5, 0::real) * v1 (- 4 / 5, 3 / 5, 0::real)\<bar> +
             \<bar>v0 (- 4 / 5, 3 / 5, 0::real) * v1 (3 / 5, 4 / 5, 0::real)\<bar> \<noteq> 0"
    by simp
  from apply_tension_T_avg [OF two nl nr den, of 800 None None]
  obtain w' T_l T_r where
      "apply_tension (Some 800) None None example_wheel = (Inr (), w')"
      "length (spokes w') = length (spokes example_wheel)"
      "\<forall>i < length (spokes w'). tension (spokes w' ! i) = (if even i then T_l else T_r)"
      "T_l * \<bar>v0 (3 / 5, 4 / 5, 0::real)\<bar> = T_r * \<bar>v0 (- 4 / 5, 3 / 5, 0::real)\<bar>"
      "(T_l * \<bar>v1 (3 / 5, 4 / 5, 0::real)\<bar> + T_r * \<bar>v1 (- 4 / 5, 3 / 5, 0::real)\<bar>) / 2 = 800"
    by blast
  then show ?thesis using two
    by (intro exI [of _ w'] exI [of _ T_l] exI [of _ T_r])
       (simp add: example_wheel_def BicycleWheel_init_def)
qed

text \<open>
  The balance as the claim writes it, \<open>T_l |n_l0 n_r1| = T_r |n_r0 n_l1|\<close>, fails at the
  example wheel (\<open>n_l = (3/5, 4/5, 0)\<close>, \<open>n_r = (-4/5, 3/5, 0)\<close>) with \<open>T_avg = 1\<close>: there
  \<open>T_l = 8/5\<close>, \<open>T_r = 6/5\<close>, and the two sides are \<open>72/125\<close> and \<open>96/125\<close>.
\<close>

theorem apply_tension_T_avg_counterexample:
  "let w' = snd (apply_tension (Some 1) None None example_wheel);
       n_l = n_spk (spokes example_wheel ! 0);
       n_r = n_spk (spokes example_wheel ! 1);
       T_l = tension (spokes w' ! 0);
       T_r = tension (spokes w' ! 1)
   in fst (apply_tension (Some 1) None None example_wheel) = Inr ()
      \<and> \<bar>v0 n_l * v1 n_r\<bar> + \<bar>v0 n_r * v1 n_l\<bar> \<noteq> 0
      \<and> T_l * \<bar>v0 n_l * v1 n_r\<bar> \<noteq> T_r * \<bar>v0 n_r * v1 n_l\<bar>"
  by (simp add: apply_tension_def Let_def assign_tensions_idem nth_assign_tensions
        example_wheel_def BicycleWheel_init_def example_spoke_l_def example_spoke_r_def
        Spoke_init_def)

section \<open>apply_tension from the tension of one side\<close>

text \<open>
  Claim C4, as amended. For a wheel with at least two spokes, when \<open>apply_tension\<close> is
  called without \<open>T_avg\<close> and with \<open>T_right = t\<close> (or, \<open>T_right\<close> left out, with
  \<open>T_left = t\<close>), the side that was given gets \<open>t\<close>, even-indexed spokes get \<open>T_l\<close> and
  odd-indexed spokes \<open>T_r\<close>, and the other side's tension is derived so that
  \<open>T_l |n_l0| = T_r |n_r0|\<close>, provided the lateral component that the code divides by
  (\<open>n_l0\<close> for \<open>T_right\<close>, \<open>n_r0\<close> for \<open>T_left\<close>) is not zero.
\<close>

theorem apply_tension_one_side:
  assumes two: "2 \<le> length (spokes w)"
    and nl: "n_l = n_spk (spokes w ! 0)"
    and nr: "n_r = n_spk (spokes w ! 1)"
    and given: "(T_right = Some t \<and> v0 n_l \<noteq> 0) \<or> (T_right = None \<and> T_left = Some t \<and> v0 n_r \<noteq> 0)"
  shows "\<exists>w' T_l T_r.
      apply_tension None T_left T_right w = (Inr (), w')
    \<and> length (spokes w') = length (spokes w)
    \<and> (\<forall>i < length (spokes w'). tension (spokes w' ! i) = (if even i then T_l else T_r))
    \<and> (\<forall>i < length (spokes w'). n_spk (spokes w' ! i) = n_spk (spokes w ! i))
    \<and> (if T_right = None then T_l = t else T_r = t)
    \<and> T_l * \<bar>v0 n_l\<bar> = T_r * \<bar>v0 n_r\<bar>"
  using given
proof
  assume r: "T_right = Some t \<and> v0 n_l \<noteq> 0"
  define T_l where "T_l = \<bar>v0 n_r / v0 n_l\<bar> * t"
  define w' where "w' = w\<lparr>spokes := assign_tensions T_l t (spokes w)\<rparr>"
  have res: "apply_tension None T_left T_right w = (Inr (), w')"
    using two r by (simp add: apply_tension_def Let_def w'_def T_l_def nl nr)
  have len: "length (spokes w') = length (spokes w)" by (simp add: w'_def)
  have alt: "\<forall>i < length (spokes w'). tension (spokes w' ! i) = (if even i then T_l else t)"
    by (simp add: w'_def nth_assign_tensions)
  have frame: "\<forall>i < length (spokes w'). n_spk (spokes w' ! i) = n_spk (spokes w ! i)"
    by (simp add: w'_def nth_assign_tensions)
  have bal: "T_l * \<bar>v0 n_l\<bar> = t * \<bar>v0 n_r\<bar>"
    using r by (simp add: T_l_def)
  have side: "if T_right = None then T_l = t else t = t" using r by simp
  from res len alt frame side bal show ?thesis by blast
next
  assume l: "T_right = None \<and> T_left = Some t \<and> v0 n_r \<noteq> 0"
  define T_r where "T_r = \<bar>v0 n_l / v0 n_r\<bar> * t"
  define w' where "w' = w\<lparr>spokes := assign_tensions t T_r (spokes w)\<rparr>"
  have res: "apply_tension None T_left T_right w = (Inr (), w')"
    using two l by (simp add: apply_tension_def Let_def w'_def T_r_def nl nr)
  have len: "length (spokes w') = length (spokes w)" by (simp add: w'_def)
  have alt: "\<forall>i < length (spokes w'). tension (spokes w' ! i) = (if even i then t else T_r)"
    by (simp add: w'_def nth_assign_tensions)
  have frame: "\<forall>i < length (spokes w'). n_spk (spokes w' ! i) = n_spk (spokes w ! i)"
    by (simp add: w'_def nth_assign_tensions)
  have bal: "t * \<bar>v0 n_l\<bar> = T_r * \<bar>v0 n_r\<bar>"
    using l by (simp add: T_r_def)
  have side: "if T_right = None then t = t else T_r = t" using l by simp
  from res len alt frame side bal show ?thesis by blast
qed

text \<open>The theorem at the example wheel with \<open>T_left = 900\<close>.\<close>

theorem apply_tension_one_side_witness:
  "\<exists>w' T_l T_r.
      apply_tension None (Some 900) None example_wheel = (Inr (), w')
    \<and> length (spokes w') = 2
    \<and> tension (spokes w' ! 0) = T_l \<and> tension (spokes w' ! 1) = T_r
    \<and> T_l = 900
    \<and> T_l * \<bar>3 / 5\<bar> = T_r * \<bar>- 4 / 5\<bar>"
proof -
  have two: "2 \<le> length (spokes example_wheel)"
    by (simp add: example_wheel_def BicycleWheel_init_def)
  have nl: "(3 / 5, 4 / 5, 0) = n_spk (spokes example_wheel ! 0)"
    by (simp add: example_wheel_def BicycleWheel_init_def example_spoke_l_def Spoke_init_def)
  have nr: "(- 4 / 5, 3 / 5, 0) = n_spk (spokes example_wheel ! 1)"
    by (simp add: example_wheel_def BicycleWheel_init_def example_spoke_r_def Spoke_init_def)
  have given: "((None::real option) = Some 900 \<and> v0 (3 / 5, 4 / 5, 0::real) \<noteq> 0) \<or>
      ((None::real option) = None \<and> Some (900::real) = Some 900 \<and> v0 (- 4 / 5, 3 / 5, 0::real) \<noteq> 0)"
    by simp
  from apply_tension_one_side [OF two nl nr given]
  obtain w' T_l T_r where
      "apply_tension None (Some 900) None example_wheel = (Inr (), w')"
      "length (spokes w') = length (spokes example_wheel)"
      "\<forall>i < length (spokes w'). tension (spokes w' ! i) = (if even i then T_l else T_r)"
      "if (None::real option) = None then T_l = 900 else T_r = 900"
      "T_l * \<bar>v0 (3 / 5, 4 / 5, 0::real)\<bar> = T_r * \<bar>v0 (- 4 / 5, 3 / 5, 0::real)\<bar>"
    by blast
  then show ?thesis using two
    by (intro exI [of _ w'] exI [of _ T_l] exI [of _ T_r])
       (simp add: example_wheel_def BicycleWheel_init_def)
qed

text \<open>
  The balance as the claim writes it fails at the example wheel with \<open>T_right = 1\<close>: there
  \<open>T_l = 4/3\<close>, and \<open>T_l |n_l0 n_r1| = 12/25\<close> while \<open>T_r |n_r0 n_l1| = 16/25\<close>.
\<close>

theorem apply_tension_one_side_counterexample:
  "let w' = snd (apply_tension None None (Some 1) example_wheel);
       n_l = n_spk (spokes example_wheel ! 0);
       n_r = n_spk (spokes example_wheel ! 1);
       T_l = tension (spokes w' ! 0);
       T_r = tension (spokes w' ! 1)
   in fst (apply_tension None None (Some 1) example_wheel) = Inr ()
      \<and> T_r = 1
      \<and> T_l * \<bar>v0 n_l * v1 n_r\<bar> \<noteq> T_r * \<bar>v0 n_r * v1 n_l\<bar>"
  by (simp add: apply_tension_def Let_def nth_assign_tensions
        example_wheel_def BicycleWheel_init_def example_spoke_l_def example_spoke_r_def
        Spoke_init_def)

section \<open>Wheels with fewer than two spokes\<close>

text \<open>
  Claim C9. On a wheel with fewer than two spokes \<open>apply_tension\<close> raises IndexError
  whatever arguments are given and leaves the wheel as it was, and \<open>calc_kbar_geom\<close> raises
  IndexError too. The TypeError of a call without arguments is raised exactly on wheels
  with at least two spokes, and \<open>calc_kbar_geom\<close> raises IndexError exactly on wheels with
  fewer than two.
\<close>

theorem apply_tension_needs_two_spokes:
  "(length (spokes w) < 2 \<longrightarrow>
      apply_tension T_avg T_left T_right w = (Inl IndexError, w) \<and> calc_kbar_geom w = Inl IndexError)
   \<and> (fst (apply_tension T_avg T_left T_right w) = Inl TypeError \<longleftrightarrow>
        2 \<le> length (spokes w) \<and> T_avg = None \<and> T_left = None \<and> T_right = None)
   \<and> (calc_kbar_geom w = Inl IndexError \<longleftrightarrow> length (spokes w) < 2)"
  by (auto simp: apply_tension_def calc_kbar_geom_def Let_def split: option.splits)

text \<open>The theorem at a wheel with one spoke, and at the example wheel with two.\<close>

theorem apply_tension_needs_two_spokes_witness:
  "apply_tension (Some 800) None None (BicycleWheel_init\<lparr>spokes := [example_spoke_l]\<rparr>)
     = (Inl IndexError, BicycleWheel_init\<lparr>spokes := [example_spoke_l]\<rparr>)
   \<and> calc_kbar_geom (BicycleWheel_init\<lparr>spokes := [example_spoke_l]\<rparr>) = Inl IndexError
   \<and> fst (apply_tension None None None (BicycleWheel_init\<lparr>spokes := [example_spoke_l]\<rparr>)) \<noteq> Inl TypeError
   \<and> fst (apply_tension None None None example_wheel) = Inl TypeError"
  using apply_tension_needs_two_spokes [of "BicycleWheel_init\<lparr>spokes := [example_spoke_l]\<rparr>" "Some 800" None None]
    apply_tension_needs_two_spokes [of "BicycleWheel_init\<lparr>spokes := [example_spoke_l]\<rparr>" None None None]
    apply_tension_needs_two_spokes [of example_wheel None None None]
  by (simp add: example_wheel_def BicycleWheel_init_def)

section \<open>The spoke stiffness matrices\<close>

text \<open>
  Both source functions are instances of the construction of the specification; the
  matrix of the construction is symmetric, linear in its two coefficients, and its
  quadratic form at \<open>x\<close> is that of \<open>k_f\<close> at \<open>y = (x\<^sub>0, x\<^sub>1, x\<^sub>2) + x\<^sub>3 (e\<^sub>3 \<times> b)\<close>.
\<close>

lemmas arr_defs = mat_add_def mat_scale_def mat_sub_def eye3_def mat_vec_def vec_mat_def assemble_k_def

lemma lt4: "(i::nat) < 4 \<longleftrightarrow> i = 0 \<or> i = 1 \<or> i = 2 \<or> i = 3"
  by auto

lemma calc_k_construction:
  "calc_k s t = k_construction (EA s / length_spk s)
                  (if t then tension s / length_spk s else 0) (n_spk s) (b_spk s)"
  by (simp add: calc_k_def k_construction_def Let_def)

lemma calc_k_geom_construction:
  "calc_k_geom s = k_construction 0 (1 / length_spk s) (n_spk s) (b_spk s)"
  by (cases "n_spk s"; cases "b_spk s") (simp add: calc_k_geom_def k_construction_def Let_def arr_defs)

lemma k_construction_symmetric:
  "i < 4 \<Longrightarrow> j < 4 \<Longrightarrow> k_construction K_e K_t n b ! i ! j = k_construction K_e K_t n b ! j ! i"
  apply (cases n; cases b)
  apply (simp add: k_construction_def Let_def arr_defs lt4)
  apply (auto simp: mult.commute)
  done

lemma k_construction_linear:
  "i < 4 \<Longrightarrow> j < 4 \<Longrightarrow>
   k_construction (a + c * a') (d + c * d') n b ! i ! j =
   k_construction a d n b ! i ! j + c * k_construction a' d' n b ! i ! j"
  apply (cases n; cases b)
  apply (simp add: k_construction_def Let_def arr_defs lt4)
  apply (auto simp: algebra_simps)
  done

lemma quad_k_construction:
  "quad_form (k_construction K_e K_t (n0, n1, n2) (b0, b1, b2)) [x0, x1, x2, x3] =
     K_e * (n0 * (x0 - x3 * b1) + n1 * (x1 + x3 * b0) + n2 * x2)\<^sup>2 +
     K_t * (((x0 - x3 * b1)\<^sup>2 + (x1 + x3 * b0)\<^sup>2 + x2\<^sup>2) -
            (n0 * (x0 - x3 * b1) + n1 * (x1 + x3 * b0) + n2 * x2)\<^sup>2)"
  apply (simp add: k_construction_def Let_def arr_defs quad_form_def)
  apply (simp add: power2_eq_square algebra_simps)
  done

lemma unit_projection_le:
  fixes n0 :: real
  assumes "n0\<^sup>2 + n1\<^sup>2 + n2\<^sup>2 = 1"
  shows "(n0 * y0 + n1 * y1 + n2 * y2)\<^sup>2 \<le> y0\<^sup>2 + y1\<^sup>2 + y2\<^sup>2"
proof -
  have "(y0\<^sup>2 + y1\<^sup>2 + y2\<^sup>2) * (n0\<^sup>2 + n1\<^sup>2 + n2\<^sup>2) - (n0 * y0 + n1 * y1 + n2 * y2)\<^sup>2
      = (n1 * y2 - n2 * y1)\<^sup>2 + (n2 * y0 - n0 * y2)\<^sup>2 + (n0 * y1 - n1 * y0)\<^sup>2"
    by (simp add: power2_eq_square algebra_simps)
  moreover have "0 \<le> (n1 * y2 - n2 * y1)\<^sup>2 + (n2 * y0 - n0 * y2)\<^sup>2 + (n0 * y1 - n1 * y0)\<^sup>2"
    by simp
  moreover have "(y0\<^sup>2 + y1\<^sup>2 + y2\<^sup>2) * (n0\<^sup>2 + n1\<^sup>2 + n2\<^sup>2) = y0\<^sup>2 + y1\<^sup>2 + y2\<^sup>2"
    by (simp only: assms mult_1_right)
  ultimately show ?thesis by linarith
qed

lemma k_construction_psd:
  assumes unit: "(v0 n)\<^sup>2 + (v1 n)\<^sup>2 + (v2 n)\<^sup>2 = 1"
    and Ke: "0 \<le> K_e" and Kt: "0 \<le> K_t" and len: "length x = 4"
  shows "0 \<le> quad_form (k_construction K_e K_t n b) x"
proof -
  obtain n0 n1 n2 where n: "n = (n0, n1, n2)" by (cases n)
  obtain b0 b1 b2 where b: "b = (b0, b1, b2)" by (cases b)
  obtain x0 x1 x2 x3 where x: "x = [x0, x1, x2, x3]"
    using len by (auto simp: length_Suc_conv numeral_eq_Suc)
  let ?p = "n0 * (x0 - x3 * b1) + n1 * (x1 + x3 * b0) + n2 * x2"
  let ?y = "(x0 - x3 * b1)\<^sup>2 + (x1 + x3 * b0)\<^sup>2 + x2\<^sup>2"
  have "?p\<^sup>2 \<le> ?y"
    using unit by (intro unit_projection_le) (simp add: n)
  then have "0 \<le> K_e * ?p\<^sup>2 + K_t * (?y - ?p\<^sup>2)"
    using Ke Kt by simp
  then show ?thesis
    by (simp only: n b x quad_k_construction)
qed

text \<open>
  Claim C5. For a spoke with unit direction vector \<open>n\<close>, \<open>EA \<ge> 0\<close> and \<open>tension \<ge> 0\<close>, the
  4x4 matrix of \<open>calc_k\<close> (with the tension flag true or false) is symmetric,
  \<open>k[i,j] = k[j,i]\<close> for \<open>i, j\<close> in 0..3, and positive semi-definite, \<open>x\<^sup>T k x \<ge> 0\<close> for
  every 4-vector \<open>x\<close>. The length of a spoke is a scalar greater than 0 in the data model
  of the specification; the theorem states it, since \<open>K_e\<close> and \<open>K_t\<close> are quotients by it.
\<close>

theorem calc_k_symmetric_psd:
  assumes unit: "(v0 (n_spk s))\<^sup>2 + (v1 (n_spk s))\<^sup>2 + (v2 (n_spk s))\<^sup>2 = 1"
    and EA0: "0 \<le> EA s" and T0: "0 \<le> tension s" and len: "0 < length_spk s"
  shows "(\<forall>i<4. \<forall>j<4. calc_k s use_tension ! i ! j = calc_k s use_tension ! j ! i)
       \<and> (\<forall>x. length x = 4 \<longrightarrow> 0 \<le> quad_form (calc_k s use_tension) x)"
proof (intro conjI allI impI)
  fix i j :: nat
  assume "i < 4" "j < 4"
  then show "calc_k s use_tension ! i ! j = calc_k s use_tension ! j ! i"
    by (simp only: calc_k_construction k_construction_symmetric)
next
  fix x :: "real list"
  assume x: "length x = 4"
  have "0 \<le> EA s / length_spk s" using EA0 len by simp
  moreover have "0 \<le> (if use_tension then tension s / length_spk s else 0)" using T0 len by simp
  ultimately show "0 \<le> quad_form (calc_k s use_tension) x"
    unfolding calc_k_construction by (intro k_construction_psd unit x)
qed

text \<open>The theorem at the first example spoke under a tension of 800.\<close>

theorem calc_k_symmetric_psd_witness:
  "calc_k (example_spoke_l\<lparr>tension := 800\<rparr>) True ! 0 ! 3 = calc_k (example_spoke_l\<lparr>tension := 800\<rparr>) True ! 3 ! 0
   \<and> 0 \<le> quad_form (calc_k (example_spoke_l\<lparr>tension := 800\<rparr>) True) [1, - 2, 3, 1]"
proof -
  have "(v0 (n_spk (example_spoke_l\<lparr>tension := 800\<rparr>)))\<^sup>2 + (v1 (n_spk (example_spoke_l\<lparr>tension := 800\<rparr>)))\<^sup>2
        + (v2 (n_spk (example_spoke_l\<lparr>tension := 800\<rparr>)))\<^sup>2 = 1"
    by (simp add: example_spoke_l_def Spoke_init_def power2_eq_square)
  moreover have "0 \<le> EA (example_spoke_l\<lparr>tension := 800\<rparr>)"
    by (simp add: example_spoke_l_def Spoke_init_def)
  moreover have "0 \<le> tension (example_spoke_l\<lparr>tension := 800\<rparr>)" by simp
  moreover have "0 < length_spk (example_spoke_l\<lparr>tension := 800\<rparr>)"
    by (simp add: example_spoke_l_def Spoke_init_def)
  ultimately show ?thesis
    using calc_k_symmetric_psd [of "example_spoke_l\<lparr>tension := 800\<rparr>" True] by simp
qed

text \<open>
  Claim C6. For a spoke whose length is not zero, \<open>calc_k(tension=True)\<close> equals
  \<open>calc_k(tension=False) + tension * calc_k_geom()\<close> entry by entry on the 4x4 matrices;
  \<open>calc_k_geom\<close> is the construction of \<open>calc_k\<close> with \<open>K_e = 0\<close> and \<open>K_t = 1/length\<close>, and
  \<open>calc_k\<close> is the construction with \<open>K_e = EA/length\<close> and \<open>K_t = tension/length\<close> or 0.
\<close>

theorem calc_k_geom_per_unit_tension:
  assumes "length_spk s \<noteq> 0"
  shows "(\<forall>i<4. \<forall>j<4. calc_k s True ! i ! j = calc_k s False ! i ! j + tension s * calc_k_geom s ! i ! j)
       \<and> calc_k_geom s = k_construction 0 (1 / length_spk s) (n_spk s) (b_spk s)
       \<and> calc_k s use_tension = k_construction (EA s / length_spk s)
           (if use_tension then tension s / length_spk s else 0) (n_spk s) (b_spk s)"
proof (intro conjI allI impI)
  fix i j :: nat
  assume ij: "i < 4" "j < 4"
  have "calc_k s True ! i ! j =
      k_construction (EA s / length_spk s + tension s * 0) (0 + tension s * (1 / length_spk s))
        (n_spk s) (b_spk s) ! i ! j"
    by (simp add: calc_k_construction)
  also have "\<dots> = k_construction (EA s / length_spk s) 0 (n_spk s) (b_spk s) ! i ! j
      + tension s * k_construction 0 (1 / length_spk s) (n_spk s) (b_spk s) ! i ! j"
    using ij by (rule k_construction_linear)
  finally show "calc_k s True ! i ! j = calc_k s False ! i ! j + tension s * calc_k_geom s ! i ! j"
    by (simp add: calc_k_construction calc_k_geom_construction)
qed (rule calc_k_geom_construction calc_k_construction)+

text \<open>The theorem at the first example spoke under a tension of 800, at entry (0, 0).\<close>

theorem calc_k_geom_per_unit_tension_witness:
  "calc_k (example_spoke_l\<lparr>tension := 800\<rparr>) True ! 0 ! 0 =
     calc_k (example_spoke_l\<lparr>tension := 800\<rparr>) False ! 0 ! 0 + 800 * calc_k_geom (example_spoke_l\<lparr>tension := 800\<rparr>) ! 0 ! 0
   \<and> calc_k_geom (example_spoke_l\<lparr>tension := 800\<rparr>) ! 0 ! 0 = 16 / 25"
proof -
  have "length_spk (example_spoke_l\<lparr>tension := 800\<rparr>) \<noteq> 0"
    by (simp add: example_spoke_l_def Spoke_init_def)
  from calc_k_geom_per_unit_tension [OF this, of True]
  have "\<forall>i<4. \<forall>j<4. calc_k (example_spoke_l\<lparr>tension := 800\<rparr>) True ! i ! j =
      calc_k (example_spoke_l\<lparr>tension := 800\<rparr>) False ! i ! j
      + tension (example_spoke_l\<lparr>tension := 800\<rparr>) * calc_k_geom (example_spoke_l\<lparr>tension := 800\<rparr>) ! i ! j"
    by (rule conjunct1)
  then have "calc_k (example_spoke_l\<lparr>tension := 800\<rparr>) True ! 0 ! 0 =
      calc_k (example_spoke_l\<lparr>tension := 800\<rparr>) False ! 0 ! 0
      + tension (example_spoke_l\<lparr>tension := 800\<rparr>) * calc_k_geom (example_spoke_l\<lparr>tension := 800\<rparr>) ! 0 ! 0"
    by (metis zero_less_numeral)
  then have "calc_k (example_spoke_l\<lparr>tension := 800\<rparr>) True ! 0 ! 0 =
     calc_k (example_spoke_l\<lparr>tension := 800\<rparr>) False ! 0 ! 0 + 800 * calc_k_geom (example_spoke_l\<lparr>tension := 800\<rparr>) ! 0 ! 0"
    by simp
  moreover have "calc_k_geom (example_spoke_l\<lparr>tension := 800\<rparr>) ! 0 ! 0 = 16 / 25"
    by (simp add: calc_k_geom_def Let_def arr_defs example_spoke_l_def Spoke_init_def)
  ultimately show ?thesis by simp
qed

section \<open>Hub construction\<close>

text \<open>
  Claim C7, as amended. The flange widths are resolved by precedence, and a width counts
  as given only when it is a float (\<open>isinstance(x, float)\<close>). If the symmetric \<open>width\<close> is a
  float and both per-side widths are \<open>None\<close>, the hub is built with
  \<open>width_nds = width/2 + offset\<close> and \<open>width_ds = width/2 - offset\<close>, where a missing \<open>offset\<close>
  counts as 0; if a per-side width other than \<open>None\<close> is supplied as well, ValueError is
  raised. Otherwise (\<open>width\<close> missing or not a float), if both per-side widths are floats
  they are used as they are; otherwise ValueError is raised. No other case builds a
  hub, so no width is ever defaulted.
\<close>

theorem Hub_init_width_resolution:
  assumes off: "num_of (if offset = PNone then PFloat 0 else offset) = Some off"
  shows "(width = PFloat wd \<and> w_nds = PNone \<and> w_ds = PNone \<longrightarrow>
            (\<exists>h. Hub_init diam diam_nds diam_ds width w_nds w_ds offset = Inr h
                 \<and> width_nds h = wd / 2 + off \<and> width_ds h = wd / 2 - off))
       \<and> (width = PFloat wd \<and> (w_nds \<noteq> PNone \<or> w_ds \<noteq> PNone) \<longrightarrow>
            Hub_init diam diam_nds diam_ds width w_nds w_ds offset = Inl ValueError)
       \<and> (\<not> is_float width \<and> w_nds = PFloat a \<and> w_ds = PFloat b \<longrightarrow>
            (\<exists>h. Hub_init diam diam_nds diam_ds width w_nds w_ds offset = Inr h
                 \<and> width_nds h = a \<and> width_ds h = b))
       \<and> (\<not> is_float width \<and> \<not> (is_float w_nds \<and> is_float w_ds) \<longrightarrow>
            Hub_init diam diam_nds diam_ds width w_nds w_ds offset = Inl ValueError)
       \<and> (offset = PNone \<longrightarrow> off = 0)"
proof (intro conjI impI)
  assume "width = PFloat wd \<and> w_nds = PNone \<and> w_ds = PNone"
  then show "\<exists>h. Hub_init diam diam_nds diam_ds width w_nds w_ds offset = Inr h
                 \<and> width_nds h = wd / 2 + off \<and> width_ds h = wd / 2 - off"
    using off by (simp add: Hub_init_def Let_def)
next
  assume "width = PFloat wd \<and> (w_nds \<noteq> PNone \<or> w_ds \<noteq> PNone)"
  then show "Hub_init diam diam_nds diam_ds width w_nds w_ds offset = Inl ValueError"
    using off by (auto simp: Hub_init_def Let_def)
next
  assume "\<not> is_float width \<and> w_nds = PFloat a \<and> w_ds = PFloat b"
  then show "\<exists>h. Hub_init diam diam_nds diam_ds width w_nds w_ds offset = Inr h
                 \<and> width_nds h = a \<and> width_ds h = b"
    by (cases width) (simp_all add: Hub_init_def Let_def)
next
  assume "\<not> is_float width \<and> \<not> (is_float w_nds \<and> is_float w_ds)"
  then show "Hub_init diam diam_nds diam_ds width w_nds w_ds offset = Inl ValueError"
    by (cases width; cases w_nds; cases w_ds) (simp_all add: Hub_init_def Let_def)
next
  assume "offset = PNone"
  then show "off = 0" using off by simp
qed

text \<open>
  The theorem at \<open>Hub(diameter=0.05, width=0.05)\<close>, at the same call with
  \<open>width_nds=0.03\<close> added, at \<open>Hub(diameter=0.05, width_nds=0.03, width_ds=0.02)\<close> and at
  \<open>Hub(diameter=0.05, width_nds=0.03)\<close>.
\<close>

theorem Hub_init_width_resolution_witness:
  "Hub_init (PFloat (5 / 100)) PNone PNone (PFloat (5 / 100)) PNone PNone PNone = Inr example_hub
   \<and> Hub_init (PFloat (5 / 100)) PNone PNone (PFloat (5 / 100)) (PFloat (3 / 100)) PNone PNone = Inl ValueError
   \<and> (\<exists>h. Hub_init (PFloat (5 / 100)) PNone PNone PNone (PFloat (3 / 100)) (PFloat (2 / 100)) PNone = Inr h
          \<and> width_nds h = 3 / 100 \<and> width_ds h = 2 / 100)
   \<and> Hub_init (PFloat (5 / 100)) PNone PNone PNone (PFloat (3 / 100)) PNone PNone = Inl ValueError"
proof -
  have off: "num_of (if PNone = PNone then PFloat 0 else PNone) = Some 0" by simp
  note r = Hub_init_width_resolution [OF off]
  have "\<exists>h. Hub_init (PFloat (5 / 100)) PNone PNone (PFloat (5 / 100)) PNone PNone PNone = Inr h
      \<and> width_nds h = (5 / 100) / 2 + 0 \<and> width_ds h = (5 / 100) / 2 - 0"
    using r [where width = "PFloat (5 / 100)" and wd = "5 / 100" and w_nds = PNone and w_ds = PNone] by blast
  then have 1: "Hub_init (PFloat (5 / 100)) PNone PNone (PFloat (5 / 100)) PNone PNone PNone = Inr example_hub"
    by (auto simp: Hub_init_def Let_def example_hub_def)
  have 2: "Hub_init (PFloat (5 / 100)) PNone PNone (PFloat (5 / 100)) (PFloat (3 / 100)) PNone PNone = Inl ValueError"
    using r [where width = "PFloat (5 / 100)" and wd = "5 / 100" and w_nds = "PFloat (3 / 100)" and w_ds = PNone] by simp
  have 3: "\<exists>h. Hub_init (PFloat (5 / 100)) PNone PNone PNone (PFloat (3 / 100)) (PFloat (2 / 100)) PNone = Inr h
          \<and> width_nds h = 3 / 100 \<and> width_ds h = 2 / 100"
    using r [where width = PNone and w_nds = "PFloat (3 / 100)" and w_ds = "PFloat (2 / 100)" and a = "3 / 100" and b = "2 / 100"] by simp
  have 4: "Hub_init (PFloat (5 / 100)) PNone PNone PNone (PFloat (3 / 100)) PNone PNone = Inl ValueError"
    using r [where width = PNone and w_nds = "PFloat (3 / 100)" and w_ds = PNone] by simp
  from 1 2 3 4 show ?thesis by blast
qed

text \<open>
  Read with "given" as "passed, not \<open>None\<close>", the resolution fails on integer widths.
  \<open>Hub(diameter=0.05, width=1)\<close> gives a symmetric width and no per-side width, and raises
  ValueError instead of deriving the two widths. \<open>Hub(diameter=0.05, width=5,
  width_nds=0.03, width_ds=0.02)\<close> gives all three, and builds the hub from the per-side
  widths instead of raising. \<open>Hub(diameter=0.05, width_nds=3, width_ds=2)\<close> gives both
  per-side widths, and raises instead of using them.
\<close>

theorem Hub_init_width_resolution_counterexample:
  "Hub_init (PFloat (5 / 100)) PNone PNone (PInt 1) PNone PNone PNone = Inl ValueError
   \<and> Hub_init (PFloat (5 / 100)) PNone PNone (PInt 5) (PFloat (3 / 100)) (PFloat (2 / 100)) PNone
       = Inr \<lparr>diameter_nds = PFloat (5 / 100), diameter_ds = PFloat (5 / 100),
              width_nds = 3 / 100, width_ds = 2 / 100\<rparr>
   \<and> Hub_init (PFloat (5 / 100)) PNone PNone PNone (PInt 3) (PInt 2) PNone = Inl ValueError"
  by (simp add: Hub_init_def Let_def)

section \<open>The box rim\<close>

text \<open>Whatever its arguments, \<open>Rim.box\<close> raises: it never returns a rim.\<close>

lemma box_never_returns:
  "box r w h t ym sm dens = Inl (if w + h = 0 then ZeroDivisionError else UnboundLocalError)"
  by (simp add: box_def read_local_def Let_def)

text \<open>
  Claim C2 says that \<open>Rim.box\<close> returns a rim tagged \<open>box\<close> for positive arguments. At
  \<open>Rim.box(radius=0.3, w=0.01, h=0.015, t=0.002, young_mod=70e9, shear_mod=26e9)\<close> the
  call raises UnboundLocalError at \<open>I_warp = I_warp\<close> instead.
\<close>

theorem box_raises_UnboundLocalError:
  "box (3 / 10) (1 / 100) (15 / 1000) (2 / 1000) 70000000000 26000000000 None
     = Inl UnboundLocalError"
  by (simp add: box_def read_local_def Let_def)

section \<open>Lacing\<close>

text \<open>
  Every pass of the loop body stops at the unbound name \<open>s_dir\<close>, so \<open>lace_cross_side\<close>
  either fails on a missing attribute, or returns without a spoke when \<open>n_spokes \<le> 0\<close>, or
  raises NameError; and \<open>lace_cross\<close> always leaves the wheel without spokes.
\<close>

lemma lace_spoke_NameError:
  "lace_spoke rm hb hub_z hub_r n_spokes n_cross side offset diam ym dens offset_rad s = Inl NameError"
  by (simp add: lace_spoke_def s_dir_def Let_def)

lemma lace_loop_NameError:
  "lace_loop (lace_spoke rm hb hub_z hub_r n_spokes n_cross side offset diam ym dens offset_rad) xs acc
     = (if xs = [] then None else Some NameError, acc)"
  by (cases xs) (simp_all add: lace_spoke_NameError)

lemma reorder_spokes_empty: "spokes w = [] \<Longrightarrow> reorder_spokes w = w"
  by (simp add: reorder_spokes_def)

lemma lace_cross_side_result:
  "lace_cross_side n_spokes n_cross side direction offset diam ym dens offset_lat offset_rad w =
     (if hub_width_ds w = None \<or> hub_width_nds w = None \<or> hub w = None
      then (Inl AttributeError, w)
      else if n_spokes \<le> 0 then (Inr True, reorder_spokes w)
      else (Inl NameError, w))"
  by (auto simp: lace_cross_side_def Let_def lace_loop_NameError split: option.splits)

lemma lace_cross_result:
  "lace_cross n_spokes n_cross diam ym dens offset_lat offset_rad w =
     (if hub_width_ds w = None \<or> hub_width_nds w = None \<or> hub w = None then Inl AttributeError
      else if 0 < n_spokes div 2 then Inl NameError
      else if n_spokes div 2 = 0 then Inl ZeroDivisionError
      else Inr True,
      w\<lparr>spokes := []\<rparr>)"
  by (auto simp: lace_cross_def Let_def lace_cross_side_result reorder_spokes_empty)

text \<open>
  Claim C1 says that \<open>lace_cross\<close> with an even \<open>n_spokes \<ge> 2\<close> leaves exactly \<open>n_spokes\<close>
  spokes, sorted by \<open>theta\<close>. At the example wheel (a rim and a hub assigned, two spokes
  from before) and \<open>lace_cross(36, 3, diameter=2e-3, young_mod=210e9)\<close> the call raises
  AttributeError on \<open>self.hub_width_ds\<close> and the wheel is left with no spoke; with the two
  attributes \<open>hub_width_ds\<close> and \<open>hub_width_nds\<close> set on the instance as well, it raises
  NameError on \<open>s_dir\<close>, again with no spoke.
\<close>

theorem lace_cross_raises:
  "spokes example_wheel = [example_spoke_l, example_spoke_r]
   \<and> lace_cross 36 3 (2 / 1000) 210000000000 None 0 0 example_wheel
       = (Inl AttributeError, example_wheel\<lparr>spokes := []\<rparr>)
   \<and> lace_cross 36 3 (2 / 1000) 210000000000 None 0 0
       (example_wheel\<lparr>hub_width_ds := Some (25 / 1000), hub_width_nds := Some (25 / 1000)\<rparr>)
       = (Inl NameError,
          example_wheel\<lparr>spokes := [], hub_width_ds := Some (25 / 1000), hub_width_nds := Some (25 / 1000)\<rparr>)"
  by (simp add: lace_cross_result example_wheel_def BicycleWheel_init_def)

text \<open>
  Claim C10. \<open>lace_cross\<close> empties the spoke list before it generates any spoke: whenever
  it raises an error, the wheel it leaves is the wheel it was given with an empty spoke
  list, so the spokes from before are lost.
\<close>

theorem lace_cross_error_leaves_no_spokes:
  assumes "lace_cross n_spokes n_cross diam ym dens offset_lat offset_rad w = (Inl e, w')"
  shows "w' = w\<lparr>spokes := []\<rparr> \<and> spokes w' = []"
  using assms by (auto simp: lace_cross_result)

text \<open>The theorem at the example wheel, whose two spokes are gone after the error.\<close>

theorem lace_cross_error_leaves_no_spokes_witness:
  "lace_cross 36 3 (2 / 1000) 210000000000 None 0 0 example_wheel
       = (Inl AttributeError, example_wheel\<lparr>spokes := []\<rparr>)
   \<and> spokes example_wheel \<noteq> []
   \<and> spokes (example_wheel\<lparr>spokes := []\<rparr>) = []"
proof -
  have run: "lace_cross 36 3 (2 / 1000) 210000000000 None 0 0 example_wheel
       = (Inl AttributeError, example_wheel\<lparr>spokes := []\<rparr>)"
    by (simp add: lace_cross_result example_wheel_def BicycleWheel_init_def)
  from lace_cross_error_leaves_no_spokes [OF run] run show ?thesis
    by (simp add: example_wheel_def)
qed

section \<open>Rotational inertia with missing spoke densities\<close>

text \<open>
  As soon as one spoke has no density, \<open>calc_rot_inertia\<close> returns the inertia of the rim
  alone (or 0 when the rim has no density either) and warns once about the spokes.
\<close>

lemma Spoke_calc_rot_inertia_None [simp]:
  "(Spoke_calc_rot_inertia s = None) = (density_spk s = None)"
  by (simp add: Spoke_calc_rot_inertia_def Spoke_calc_mass_def split: option.splits)

lemma inertia_missing_iff:
  "list_ex (\<lambda>i. i = None) (map Spoke_calc_rot_inertia sps) = list_ex (\<lambda>s. density_spk s = None) sps"
  by (induction sps) simp_all

lemma calc_rot_inertia_density_missing:
  assumes "rim w = Some r" and "list_ex (\<lambda>s. density_spk s = None) (spokes w)"
  shows "calc_rot_inertia w =
     Inr (or_zero (Rim_calc_rot_inertia r),
          (if Rim_calc_rot_inertia r = None then [''Rim density is not specified.''] else [])
          @ [''Some spoke densities are not specified.''])"
  using assms
  by (simp add: calc_rot_inertia_def Let_def inertia_missing_iff split: option.splits)

text \<open>
  Claim C8 says that with a rim density and some but not all spoke densities set,
  \<open>calc_rot_inertia\<close> still sums the known spoke contributions. At the example wheel the
  first spoke has density 8000 and a positive inertia of its own, the second has no
  density: \<open>calc_rot_inertia\<close> returns the rim's inertia only, with the warning about the
  spokes, while \<open>calc_mass\<close> on the same wheel adds the mass of the first spoke.
\<close>

theorem calc_rot_inertia_drops_known_spokes:
  "calc_rot_inertia example_wheel =
     Inr (or_zero (Rim_calc_rot_inertia example_rim), [''Some spoke densities are not specified.''])
   \<and> density_spk example_spoke_l = Some 8000
   \<and> 0 < or_zero (Spoke_calc_rot_inertia example_spoke_l)
   \<and> calc_mass example_wheel =
       Inr (or_zero (Rim_calc_mass example_rim) + or_zero (Spoke_calc_mass example_spoke_l),
            [''Some spoke densities are not specified.''])"
proof -
  have rim: "rim example_wheel = Some example_rim"
    by (simp add: example_wheel_def BicycleWheel_init_def)
  have miss: "list_ex (\<lambda>s. density_spk s = None) (spokes example_wheel)"
    by (simp add: example_wheel_def BicycleWheel_init_def example_spoke_r_def Spoke_init_def)
  have dens: "Rim_calc_rot_inertia example_rim \<noteq> None"
    by (simp add: Rim_calc_rot_inertia_def Rim_calc_mass_def example_rim_def general_def Rim_init_def)
  have 1: "calc_rot_inertia example_wheel =
     Inr (or_zero (Rim_calc_rot_inertia example_rim), [''Some spoke densities are not specified.''])"
    using calc_rot_inertia_density_missing [OF rim miss] dens by simp
  have 2: "density_spk example_spoke_l = Some 8000"
    by (simp add: example_spoke_l_def Spoke_init_def)
  have 3: "0 < or_zero (Spoke_calc_rot_inertia example_spoke_l)"
    by (simp add: Spoke_calc_rot_inertia_def Spoke_calc_mass_def example_spoke_l_def Spoke_init_def)
  have 4: "calc_mass example_wheel =
       Inr (or_zero (Rim_calc_mass example_rim) + or_zero (Spoke_calc_mass example_spoke_l),
            [''Some spoke densities are not specified.''])"
    by (simp add: calc_mass_def Let_def example_wheel_def BicycleWheel_init_def
          Rim_calc_mass_def Spoke_calc_mass_def example_rim_def general_def Rim_init_def
          example_spoke_l_def example_spoke_r_def Spoke_init_def)
  from 1 2 3 4 show ?thesis by blast
qed

end
